theory Spec2Isabelle
  imports Complex_Main
begin

section \<open>Python values used by File\_Validation.py\<close>

text \<open>
  A Python \<open>str\<close> is a sequence of Unicode code points, so it is modelled as a list of
  natural numbers. \<open>str\<close> turns an ASCII literal into that representation. The two
  marks the program puts at the end of its messages are single code points:
  U+2705 (white heavy check mark) and U+274C (cross mark).
\<close>

type_synonym pystr = "nat list"

definition str :: "string \<Rightarrow> pystr" where
  "str s = map of_char s"

definition CHECK :: nat where
  "CHECK = 9989"

definition CROSS :: nat where
  "CROSS = 10060"

text \<open>The bytes of an uploaded file; an Isabelle \<open>char\<close> is one byte.\<close>

type_synonym bytes = "char list"

text \<open>
  The exceptions that reach the handlers of \<open>process_files\<close>. pandas' \<open>ParserError\<close> and
  \<open>EmptyDataError\<close> are subclasses of \<open>ValueError\<close>, and so is the error raised by
  \<open>read_txt_file\<close>; each carries the text that \<open>str(e)\<close> returns.
  \<open>UnboundLocalError\<close> carries the name of the local variable that was read before any
  assignment; \<open>OtherException\<close> is any other subclass of \<open>Exception\<close>.
\<close>

datatype exn = ValueError pystr | UnboundLocalError pystr | OtherException pystr

fun exn_str :: "exn \<Rightarrow> pystr" where
  "exn_str (ValueError m) = m"
| "exn_str (UnboundLocalError v) =
     str ''cannot access local variable '' @ [39] @ v @ [39] @
     str '' where it is not associated with a value''"
| "exn_str (OtherException m) = m"

section \<open>The uploaded file\<close>

text \<open>
  \<open>UploadFile.file\<close> (the field \<open>file_obj\<close>) is a seekable binary stream: its bytes and the
  read position.
  \<open>seek_end\<close> is \<open>seek(0, os.SEEK_END)\<close>, \<open>seek\<close> is \<open>seek(n)\<close>, \<open>tell\<close> is \<open>tell()\<close>.
\<close>

record BinaryIO =
  content :: bytes
  pos :: nat

record UploadFile =
  filename :: pystr
  file_obj :: BinaryIO

definition seek_end :: "BinaryIO \<Rightarrow> BinaryIO" where
  "seek_end f = f\<lparr>pos := length (content f)\<rparr>"

definition seek :: "BinaryIO \<Rightarrow> nat \<Rightarrow> BinaryIO" where
  "seek f n = f\<lparr>pos := n\<rparr>"

definition tell :: "BinaryIO \<Rightarrow> nat" where
  "tell f = pos f"

section \<open>os.path.splitext\<close>

text \<open>
  \<open>os.path\<close> is \<open>posixpath\<close> or \<open>ntpath\<close> according to the platform; the two differ
  here only in the path separators (\<open>/\<close>, or \<open>\\\<close> and \<open>/\<close>). \<open>rfind\<close> is
  \<open>str.rfind\<close> for a single character: the greatest index, or \<open>-1\<close>.
\<close>

datatype os = Posix | Windows

fun seps :: "os \<Rightarrow> nat list" where
  "seps Posix = [47]"
| "seps Windows = [92, 47]"

fun rfind :: "pystr \<Rightarrow> nat \<Rightarrow> int" where
  "rfind [] c = -1"
| "rfind (x # xs) c =
     (let r = rfind xs c in if 0 \<le> r then r + 1 else if x = c then 0 else -1)"

text \<open>
  The loop of \<open>genericpath._splitext\<close> that skips the leading dots of the last path
  component: it returns the split at \<open>dotIndex\<close> as soon as it meets a character that is
  not a dot, and nothing when it reaches \<open>dotIndex\<close>.
\<close>

function skip_leading_dots :: "pystr \<Rightarrow> nat \<Rightarrow> nat \<Rightarrow> (pystr \<times> pystr) option" where
  "skip_leading_dots p filenameIndex dotIndex =
     (if filenameIndex < dotIndex then
        (if take 1 (drop filenameIndex p) \<noteq> [46] then Some (take dotIndex p, drop dotIndex p)
         else skip_leading_dots p (filenameIndex + 1) dotIndex)
      else None)"
  by pat_completeness auto
termination
  by (relation "measure (\<lambda>(p, i, d). d - i)") auto

declare skip_leading_dots.simps [simp del]

definition splitext :: "os \<Rightarrow> pystr \<Rightarrow> pystr \<times> pystr" where
  "splitext sys p =
     (let sepIndex = fold max (map (rfind p) (seps sys)) (-1);
          dotIndex = rfind p 46
      in if sepIndex < dotIndex then
           (case skip_leading_dots p (nat (sepIndex + 1)) (nat dotIndex) of
              Some r \<Rightarrow> r
            | None \<Rightarrow> (p, []))
         else (p, []))"

section \<open>The rules on the file itself\<close>

text \<open>
  \<open>re.match(r"^[a-zA-Z0-9 ]+$", base_name)\<close>. The class matches one code point in
  \<open>a-z\<close>, \<open>A-Z\<close>, \<open>0-9\<close> or the space. Python's \<open>$\<close> (without \<open>re.MULTILINE\<close>)
  matches at the end of the string and also just before a newline that is the last
  character of the string. No character of the class is a newline, so giving back
  characters of the greedy run never helps: the match succeeds exactly when the longest
  run of class characters is not empty and is followed by nothing or by one final newline.
\<close>

definition name_char :: "nat \<Rightarrow> bool" where
  "name_char c \<longleftrightarrow> (97 \<le> c \<and> c \<le> 122) \<or> (65 \<le> c \<and> c \<le> 90) \<or> (48 \<le> c \<and> c \<le> 57) \<or> c = 32"

definition re_match_name :: "pystr \<Rightarrow> bool" where
  "re_match_name s =
     (let rest = dropWhile name_char s
      in takeWhile name_char s \<noteq> [] \<and> (rest = [] \<or> rest = [10]))"

definition validate_file_name :: "os \<Rightarrow> pystr \<Rightarrow> pystr" where
  "validate_file_name sys file_name =
     (let base_name = fst (splitext sys file_name)
      in if re_match_name base_name then str ''File name is valid. '' @ [CHECK]
         else str ''File name is invalid. '' @ [CROSS])"

text \<open>
  \<open>validate_file_size\<close> moves the read position of the stream, so it returns the upload
  together with its verdict. \<open>tell() / 1024\<close> is Python's true division; dividing by
  \<open>2 ^ 10\<close> is exact in binary floating point for every length below \<open>2 ^ 53\<close> and
  monotone above, so the comparison with 10 is the comparison of the exact quotients.
\<close>

definition validate_file_size :: "UploadFile \<Rightarrow> pystr \<times> UploadFile" where
  "validate_file_size uploaded_file =
     (let f1 = seek_end (file_obj uploaded_file);
          file_size_kb = real (tell f1) / 1024;
          f2 = seek f1 0
      in (if file_size_kb \<le> 10 then str ''File size is valid. '' @ [CHECK]
          else str ''File size must be under 10 KB. '' @ [CROSS],
          uploaded_file\<lparr>file_obj := f2\<rparr>))"

section \<open>Parsed tables\<close>

text \<open>
  A pandas \<open>DataFrame\<close> as the rules see it: the column labels and the rows of cells. A
  cell is missing (\<open>NaN\<close>, \<open>None\<close>, \<open>pd.NA\<close>), a string, a number or a boolean.
\<close>

datatype cell = Null | Str pystr | Num rat | Bool bool

record DataFrame =
  columns :: "pystr list"
  rows :: "cell list list"

definition ALLOWED_HEADERS :: "pystr list" where
  "ALLOWED_HEADERS =
     [str ''CUSTOMER'', str ''ADDRESS'', str ''PRODUCT'', str ''PRODUCT_TYPE'', str ''PRICE'']"

text \<open>
  Frames are objects: the rules receive a reference to the frame bound to \<open>data\<close>, and the
  pandas methods they call build new frames. The store lists the frames that exist; a
  reference is an index into it, and a new frame is put at the end.
\<close>

type_synonym store = "DataFrame list"

type_synonym ref = nat

definition new_frame :: "store \<Rightarrow> DataFrame \<Rightarrow> ref \<times> store" where
  "new_frame h df = (length h, h @ [df])"

text \<open>
  \<open>isnull()\<close> returns a new frame of booleans; \<open>.values.any()\<close> reads it.
  \<open>replace(r'^\s*$', pd.NA, regex=True)\<close> returns a new frame in which every string cell
  that the pattern matches is missing: the pattern matches the strings made of white space
  only (\<open>\s\<close> on a \<open>str\<close> is the Unicode white space), the empty string among them, and
  cells that are not strings are left alone. \<open>dropna(how='all')\<close> returns a new frame
  without the rows whose cells are all missing. \<open>len\<close> counts the rows.
\<close>

definition isnull :: "store \<Rightarrow> ref \<Rightarrow> ref \<times> store" where
  "isnull h r = new_frame h ((h ! r)\<lparr>rows := map (map (\<lambda>c. Bool (c = Null))) (rows (h ! r))\<rparr>)"

definition values_any :: "store \<Rightarrow> ref \<Rightarrow> bool" where
  "values_any h r = list_ex (list_ex (\<lambda>c. c = Bool True)) (rows (h ! r))"

definition is_space :: "nat \<Rightarrow> bool" where
  "is_space c \<longleftrightarrow>
     (9 \<le> c \<and> c \<le> 13) \<or> (28 \<le> c \<and> c \<le> 32) \<or> c = 133 \<or> c = 160 \<or> c = 5760 \<or>
     (8192 \<le> c \<and> c \<le> 8202) \<or> c = 8232 \<or> c = 8233 \<or> c = 8239 \<or> c = 8287 \<or> c = 12288"

fun blank_to_na :: "cell \<Rightarrow> cell" where
  "blank_to_na (Str s) = (if list_all is_space s then Null else Str s)"
| "blank_to_na c = c"

definition replace_blank :: "store \<Rightarrow> ref \<Rightarrow> ref \<times> store" where
  "replace_blank h r = new_frame h ((h ! r)\<lparr>rows := map (map blank_to_na) (rows (h ! r))\<rparr>)"

definition dropna_all :: "store \<Rightarrow> ref \<Rightarrow> ref \<times> store" where
  "dropna_all h r =
     new_frame h ((h ! r)\<lparr>rows := filter (\<lambda>row. \<not> list_all (\<lambda>c. c = Null) row) (rows (h ! r))\<rparr>)"

definition len :: "store \<Rightarrow> ref \<Rightarrow> nat" where
  "len h r = length (rows (h ! r))"

section \<open>The rules on the parsed table\<close>

definition validate_headers :: "store \<Rightarrow> ref \<Rightarrow> pystr \<times> store" where
  "validate_headers h data =
     (if columns (h ! data) = ALLOWED_HEADERS then str ''Headers matched. '' @ [CHECK]
      else str ''Headers are not matching. '' @ [CROSS], h)"

definition check_null_values :: "store \<Rightarrow> ref \<Rightarrow> pystr \<times> store" where
  "check_null_values h data =
     (let (mask, h1) = isnull h data
      in (if values_any h1 mask then str ''Uploaded file contains null values. '' @ [CROSS]
          else str ''Uploaded file does not contain null values. '' @ [CHECK], h1))"

definition check_empty_rows :: "store \<Rightarrow> ref \<Rightarrow> pystr \<times> store" where
  "check_empty_rows h data =
     (let (replaced, h1) = replace_blank h data;
          (data_cleaned, h2) = dropna_all h1 replaced
      in (if len h2 data_cleaned < len h2 data
          then str ''Uploaded file contains empty rows. '' @ [CROSS]
          else str ''Uploaded file does not contain empty rows. '' @ [CHECK], h2))"

section \<open>What the program gets from outside\<close>

text \<open>
  The platform, \<open>str.lower\<close> (its Unicode tables are Python's), pandas' parser and the
  database are not code of the repository. \<open>pd_read_csv e d bs\<close> is
  \<open>pd.read_csv(stream, delimiter=d, skip_blank_lines=False)\<close> on a stream whose unread
  bytes are \<open>bs\<close> (\<open>None\<close> when the call gives no delimiter): the frame, or the exception
  raised. \<open>db_failure e table row\<close> is the exception that connecting, inserting \<open>row\<close> or
  committing raises when the table holds \<open>table\<close>, or \<open>None\<close> when the row is stored.
\<close>

type_synonym row = "pystr \<times> pystr \<times> pystr"

record env =
  os_name :: os
  str_lower :: "pystr \<Rightarrow> pystr"
  pd_read_csv :: "pystr option \<Rightarrow> bytes \<Rightarrow> exn + DataFrame"
  db_failure :: "row list \<Rightarrow> row \<Rightarrow> exn option"

text \<open>Reading a stream with pandas consumes it from its position to its end.\<close>

definition read_csv :: "env \<Rightarrow> pystr option \<Rightarrow> BinaryIO \<Rightarrow> (exn + DataFrame) \<times> BinaryIO" where
  "read_csv e delimiter f =
     (pd_read_csv e delimiter (drop (pos f) (content f)), seek_end f)"

section \<open>read\_txt\_file\<close>

text \<open>
  The loop over the delimiters. An attempt that raises is skipped (\<open>except Exception:
  continue\<close>), and so is one whose columns are not the allowed headers; when the list is
  used up the function raises its \<open>ValueError\<close>.
\<close>

definition delimiters :: "pystr list" where
  "delimiters = [[9], [44], [32]]"

fun read_txt_file :: "env \<Rightarrow> BinaryIO \<Rightarrow> pystr list \<Rightarrow> (exn + DataFrame) \<times> BinaryIO" where
  "read_txt_file e f [] =
     (Inl (ValueError (str
        ''Failed to parse the .txt file with common delimiters (tab, comma, space).'')), f)"
| "read_txt_file e f (delimiter # ds) =
     (case read_csv e (Some delimiter) (seek f 0) of
        (Inr df, f1) \<Rightarrow>
          if columns df = ALLOWED_HEADERS then (Inr df, f1) else read_txt_file e f1 ds
      | (Inl ex, f1) \<Rightarrow> read_txt_file e f1 ds)"

section \<open>Recording a verdict\<close>

text \<open>
  \<open>insert_validation_result\<close> appends one row to the table \<open>ValidationResults\<close>, or
  raises and leaves the table as it was. It returns the exception raised, if any, and the
  table.
\<close>

definition insert_validation_result ::
  "env \<Rightarrow> row list \<Rightarrow> pystr \<Rightarrow> pystr \<Rightarrow> pystr \<Rightarrow> exn option \<times> row list" where
  "insert_validation_result e db file_name validation_rule result =
     (case db_failure e db (file_name, validation_rule, result) of
        Some ex \<Rightarrow> (Some ex, db)
      | None \<Rightarrow> (None, db @ [(file_name, validation_rule, result)]))"

section \<open>process\_files\<close>

text \<open>
  The content of the \<open>JSONResponse\<close>: one key, \<open>error\<close> or \<open>message\<close>, and its text.
\<close>

datatype response = Error_content pystr | Message_content pystr

definition li :: "pystr \<Rightarrow> pystr" where
  "li result = str ''<li>'' @ result @ str ''</li>''"

text \<open>
  The two f-strings, with their line breaks (10), indentation (32) and quotes (34);
  \<open>items\<close> is the value of the \<open>''.join(...)\<close> they embed.
\<close>

definition rejected_message :: "pystr \<Rightarrow> pystr" where
  "rejected_message items =
     [10] @ replicate 12 32 @
     str ''<h3 style='' @ [34] @ str ''color: red;'' @ [34] @ str ''>File Rejected:</h3>'' @
     [10] @ replicate 12 32 @ str ''<ul>'' @
     [10] @ replicate 16 32 @ items @
     [10] @ replicate 12 32 @ str ''</ul>'' @
     [10] @ replicate 12 32"

definition accepted_message :: "pystr \<Rightarrow> pystr" where
  "accepted_message items =
     [10] @ replicate 8 32 @
     str ''<h3 style='' @ [34] @ str ''color: #4CAF50;'' @ [34] @
     str ''>File Validation Results:</h3>'' @
     [10] @ replicate 8 32 @ str ''<ul>'' @
     [10] @ replicate 12 32 @ items @
     [10] @ replicate 8 32 @ str ''</ul>'' @
     [10] @ replicate 8 32"

text \<open>
  The loop that records every result again under \<open>Validation\<close>; it stops at the first
  insert that raises.
\<close>

fun insert_all :: "env \<Rightarrow> row list \<Rightarrow> pystr \<Rightarrow> pystr list \<Rightarrow> exn option \<times> row list" where
  "insert_all e db file_name [] = (None, db)"
| "insert_all e db file_name (result # results) =
     (case insert_validation_result e db file_name (str ''Validation'') result of
        (Some ex, db1) \<Rightarrow> (Some ex, db1)
      | (None, db1) \<Rightarrow> insert_all e db1 file_name results)"

text \<open>
  The body of the \<open>try\<close> from \<open># Validate headers\<close> on, for a frame that was read. The
  frame becomes an object of the store when it is bound to \<open>data\<close>.
\<close>

definition validate_table ::
  "env \<Rightarrow> pystr \<Rightarrow> row list \<Rightarrow> pystr list \<Rightarrow> DataFrame \<Rightarrow> (exn + response) \<times> row list" where
  "validate_table e file_name db2 validation_results2 df =
     (let (data, h0) = new_frame [] df;
          (headers_validation, h1) = validate_headers h0 data
      in case insert_validation_result e db2 file_name (str ''Headers'') headers_validation of
           (Some ex, db3) \<Rightarrow> (Inl ex, db3)
         | (None, db3) \<Rightarrow>
     (let (null_values_check, h2) = check_null_values h1 data
      in case insert_validation_result e db3 file_name (str ''Null Values'') null_values_check of
           (Some ex, db4) \<Rightarrow> (Inl ex, db4)
         | (None, db4) \<Rightarrow>
     (let (empty_rows_check, h3) = check_empty_rows h2 data
      in case insert_validation_result e db4 file_name (str ''Empty Rows'') empty_rows_check of
           (Some ex, db5) \<Rightarrow> (Inl ex, db5)
         | (None, db5) \<Rightarrow>
     (let validation_results =
            validation_results2 @ [headers_validation, null_values_check, empty_rows_check]
      in if list_ex (\<lambda>result. CROSS \<in> set result) validation_results
         then (Inr (Error_content (rejected_message (concat (map li
                 (filter (\<lambda>result. CROSS \<in> set result) validation_results))))), db5)
         else (case insert_all e db5 file_name validation_results of
                 (Some ex, db6) \<Rightarrow> (Inl ex, db6)
               | (None, db6) \<Rightarrow>
                   (Inr (Message_content (accepted_message (concat (map li
                      validation_results)))), db6))))))"

text \<open>
  The body of the \<open>try\<close>. It returns the response or the exception that left it, and the
  table. \<open>data\<close> is assigned in the \<open>if\<close> and in the \<open>elif\<close> only: with any other
  extension the name is unbound when \<open>validate_headers(data)\<close> reads it.
\<close>

definition process_files_try ::
  "env \<Rightarrow> pystr \<Rightarrow> UploadFile \<Rightarrow> row list \<Rightarrow> (exn + response) \<times> row list" where
  "process_files_try e file_type report_file db =
     (let file_extension =
            str_lower e (drop 1 (snd (splitext (os_name e) (filename report_file))))
      in if file_extension \<noteq> file_type then
           (let validation_message =
                  str ''File type mismatch. Expected '' @ file_type @ str '' file. '' @ [CROSS]
            in case insert_validation_result e db (filename report_file) (str ''File Type'')
                      validation_message of
                 (Some ex, db1) \<Rightarrow> (Inl ex, db1)
               | (None, db1) \<Rightarrow> (Inr (Error_content validation_message), db1))
         else
           (let file_name_validation = validate_file_name (os_name e) (filename report_file)
            in case insert_validation_result e db (filename report_file) (str ''File Name'')
                      file_name_validation of
                 (Some ex, db1) \<Rightarrow> (Inl ex, db1)
               | (None, db1) \<Rightarrow>
           (let (file_size_validation, report_file1) = validate_file_size report_file
            in case insert_validation_result e db1 (filename report_file) (str ''File Size'')
                      file_size_validation of
                 (Some ex, db2) \<Rightarrow> (Inl ex, db2)
               | (None, db2) \<Rightarrow>
           (let validation_results = [file_name_validation, file_size_validation]
            in if file_extension = str ''csv'' then
                 (case fst (read_csv e None (file_obj report_file1)) of
                    Inl ex \<Rightarrow> (Inl ex, db2)
                  | Inr df \<Rightarrow>
                      validate_table e (filename report_file) db2 validation_results df)
               else if file_extension = str ''txt'' then
                 (case fst (read_txt_file e (file_obj report_file1) delimiters) of
                    Inl ex \<Rightarrow> (Inl ex, db2)
                  | Inr df \<Rightarrow>
                      validate_table e (filename report_file) db2 validation_results df)
               else (Inl (UnboundLocalError (str ''data'')), db2)))))"

text \<open>The two handlers: \<open>except ValueError\<close>, then \<open>except Exception\<close>.\<close>

definition process_files :: "env \<Rightarrow> pystr \<Rightarrow> UploadFile \<Rightarrow> row list \<Rightarrow> response \<times> row list" where
  "process_files e file_type report_file db =
     (case process_files_try e file_type report_file db of
        (Inr resp, db1) \<Rightarrow> (resp, db1)
      | (Inl (ValueError m), db1) \<Rightarrow> (Error_content (m @ str '' '' @ [CROSS]), db1)
      | (Inl ex, db1) \<Rightarrow>
          (Error_content
             (str ''An unexpected error occurred: '' @ exn_str ex @ str '' '' @ [CROSS]), db1))"

section \<open>An environment to run the program in\<close>

text \<open>
  The theorems below hold for every environment. To run the model on concrete uploads
  they are instantiated with this one: POSIX paths, lower case on ASCII letters, a
  database that stores every row, and a small reader that splits lines at the delimiter
  (the comma when none is given), takes the first line as the header, reads an empty field
  as a missing cell and raises on an empty input. It stands in for pandas in the examples
  only.
\<close>

definition ascii_lower :: "pystr \<Rightarrow> pystr" where
  "ascii_lower s = map (\<lambda>c. if 65 \<le> c \<and> c \<le> 90 then c + 32 else c) s"

fun split_on :: "nat \<Rightarrow> pystr \<Rightarrow> pystr list" where
  "split_on d [] = [[]]"
| "split_on d (x # xs) =
     (if x = d then [] # split_on d xs
      else (case split_on d xs of [] \<Rightarrow> [[x]] | w # ws \<Rightarrow> (x # w) # ws))"

definition lines_of :: "pystr \<Rightarrow> pystr list" where
  "lines_of s = (let ls = split_on 10 s in if last ls = [] then butlast ls else ls)"

definition field_cell :: "pystr \<Rightarrow> cell" where
  "field_cell s = (if s = [] then Null else Str s)"

definition example_read_csv :: "pystr option \<Rightarrow> bytes \<Rightarrow> exn + DataFrame" where
  "example_read_csv delimiter bs =
     (let d = (case delimiter of Some [c] \<Rightarrow> c | _ \<Rightarrow> 44)
      in case lines_of (map of_char bs) of
           [] \<Rightarrow> Inl (ValueError (str ''No columns to parse from file''))
         | header # body \<Rightarrow>
             (let cols = split_on d header
              in Inr \<lparr>columns = cols,
                      rows = map (\<lambda>l. take (length cols)
                               (map field_cell (split_on d l) @ replicate (length cols) Null))
                               body\<rparr>))"

definition example_env :: env where
  "example_env =
     \<lparr>os_name = Posix, str_lower = ascii_lower, pd_read_csv = example_read_csv,
      db_failure = (\<lambda>table row. None)\<rparr>"

definition upload :: "string \<Rightarrow> string \<Rightarrow> UploadFile" where
  "upload name bs = \<lparr>filename = str name, file_obj = \<lparr>content = bs, pos = 0\<rparr>\<rparr>"

text \<open>
  A frame with one white-space row, and a reader under which the comma and the space both
  give the allowed headers (and the tab does not), for the examples.
\<close>

definition example_frame :: DataFrame where
  "example_frame = \<lparr>columns = [str ''A''], rows = [[Str (str ''x'')], [Str (str '' '')]]\<rparr>"

definition ambiguous_read_csv :: "pystr option \<Rightarrow> bytes \<Rightarrow> exn + DataFrame" where
  "ambiguous_read_csv d bs =
     (if d = Some [44] then Inr \<lparr>columns = ALLOWED_HEADERS, rows = [[Str (str ''comma'')]]\<rparr>
      else if d = Some [32] then Inr \<lparr>columns = ALLOWED_HEADERS, rows = [[Str (str ''space'')]]\<rparr>
      else Inr \<lparr>columns = [map of_char bs], rows = []\<rparr>)"

text \<open>A small file that passes every rule, and the frame the example reader makes of it.\<close>

definition good_csv :: bytes where
  "good_csv = ''CUSTOMER,ADDRESS,PRODUCT,PRODUCT_TYPE,PRICE'' @ [CHR 0x0A] @ ''Ann,Rd,Pen,A,2''
     @ [CHR 0x0A]"

definition good_frame :: DataFrame where
  "good_frame = \<lparr>columns = ALLOWED_HEADERS,
     rows = [[Str (str ''Ann''), Str (str ''Rd''), Str (str ''Pen''), Str (str ''A''),
              Str (str ''2'')]]\<rparr>"

section \<open>Notions used to state the properties\<close>

text \<open>
  The three rules on the table under one name each, and a run of several of them, one
  after the other, on the same reference: the store that one rule leaves is the store the
  next one starts from.
\<close>

datatype table_rule = Headers | Null_Values | Empty_Rows

fun run_rule :: "table_rule \<Rightarrow> store \<Rightarrow> ref \<Rightarrow> pystr \<times> store" where
  "run_rule Headers h data = validate_headers h data"
| "run_rule Null_Values h data = check_null_values h data"
| "run_rule Empty_Rows h data = check_empty_rows h data"

fun run_rules :: "table_rule list \<Rightarrow> store \<Rightarrow> ref \<Rightarrow> pystr list \<times> store" where
  "run_rules [] h data = ([], h)"
| "run_rules (r # rs) h data =
     (let (v, h1) = run_rule r h data; (vs, h2) = run_rules rs h1 data in (v # vs, h2))"

text \<open>
  A delimiter is accepted for the bytes \<open>bs\<close> when pandas reads them with it without
  raising and the columns of the frame are the allowed headers.
\<close>

definition accepts :: "env \<Rightarrow> bytes \<Rightarrow> pystr \<Rightarrow> bool" where
  "accepts e bs d =
     (case pd_read_csv e (Some d) bs of Inr df \<Rightarrow> columns df = ALLOWED_HEADERS | Inl ex \<Rightarrow> False)"

section \<open>File Size\<close>

text \<open>
  C7. The File Size verdict is the passing one exactly when the stream holds at most
  10240 bytes, and the failing one exactly when it holds more; 10240 bytes pass and 10241
  fail.
\<close>

theorem file_size_limit:
  "(fst (validate_file_size u) = str ''File size is valid. '' @ [CHECK])
     = (length (content (file_obj u)) \<le> 10240) \<and>
   (fst (validate_file_size u) = str ''File size must be under 10 KB. '' @ [CROSS])
     = (10240 < length (content (file_obj u)))"
  by (simp add: validate_file_size_def seek_end_def seek_def tell_def str_def Let_def)

theorem file_size_limit_witness:
  "fst (validate_file_size (upload ''Report1.csv'' (replicate 10240 CHR ''x'')))
     = str ''File size is valid. '' @ [CHECK] \<and>
   fst (validate_file_size (upload ''Report1.csv'' (replicate 10241 CHR ''x'')))
     = str ''File size must be under 10 KB. '' @ [CROSS]"
  using file_size_limit [of "upload ''Report1.csv'' (replicate 10240 CHR ''x'')"]
    file_size_limit [of "upload ''Report1.csv'' (replicate 10241 CHR ''x'')"]
  by (simp add: upload_def)

text \<open>
  C9. \<open>validate_file_size\<close> changes nothing of the upload but the read position, which
  is 0 when it returns, whatever it was before; the bytes of the stream are the same. So
  pandas, reading the stream next, gets all the bytes of the file.
\<close>

theorem file_size_rewinds:
  "snd (validate_file_size u) = u\<lparr>file_obj := (file_obj u)\<lparr>pos := 0\<rparr>\<rparr> \<and>
   content (file_obj (snd (validate_file_size u))) = content (file_obj u) \<and>
   pos (file_obj (snd (validate_file_size u))) = 0 \<and>
   fst (read_csv e d (file_obj (snd (validate_file_size u)))) =
     pd_read_csv e d (content (file_obj u))"
  by (simp add: validate_file_size_def seek_end_def seek_def tell_def read_csv_def Let_def)

theorem file_size_rewinds_witness:
  "snd (validate_file_size \<lparr>filename = str ''a.csv'', file_obj = \<lparr>content = ''x,y'', pos = 2\<rparr>\<rparr>)
     = \<lparr>filename = str ''a.csv'', file_obj = \<lparr>content = ''x,y'', pos = 0\<rparr>\<rparr> \<and>
   fst (read_csv example_env None (file_obj (snd (validate_file_size
          \<lparr>filename = str ''a.csv'', file_obj = \<lparr>content = ''x,y'', pos = 2\<rparr>\<rparr>))))
     = Inr \<lparr>columns = [str ''x'', str ''y''], rows = []\<rparr>"
  using file_size_rewinds
    [of "\<lparr>filename = str ''a.csv'', file_obj = \<lparr>content = ''x,y'', pos = 2\<rparr>\<rparr>" example_env None]
  by (simp add: example_env_def example_read_csv_def lines_of_def str_def read_csv_def
      seek_end_def)

section \<open>The rules on the table and the store\<close>

lemma new_frame_simps [simp]: "new_frame h df = (length h, h @ [df])"
  by (simp add: new_frame_def)

lemma run_rule_frame: "take (length h) (snd (run_rule r h data)) = h"
  by (cases r)
    (simp_all add: validate_headers_def check_null_values_def isnull_def
      check_empty_rows_def replace_blank_def dropna_all_def)

lemma run_rule_value:
  "data < length h \<Longrightarrow> fst (run_rule r h data) = fst (run_rule r [h ! data] 0)"
  by (cases r)
    (simp_all add: validate_headers_def check_null_values_def isnull_def values_any_def
      check_empty_rows_def replace_blank_def dropna_all_def len_def nth_append)

lemma take_prefix_length: "take n xs = ys \<Longrightarrow> length ys = n \<Longrightarrow> n \<le> length xs"
  by (metis length_take min.cobounded2 min.commute)

lemma run_rules_frame: "take (length h) (snd (run_rules rs h data)) = h"
proof (induction rs arbitrary: h)
  case Nil
  show ?case by simp
next
  case (Cons r rs)
  let ?h1 = "snd (run_rule r h data)"
  have p1: "take (length h) ?h1 = h" by (rule run_rule_frame)
  then have le: "length h \<le> length ?h1" by (rule take_prefix_length) simp
  have "take (length ?h1) (snd (run_rules rs ?h1 data)) = ?h1" by (rule Cons.IH)
  then have "take (length h) (take (length ?h1) (snd (run_rules rs ?h1 data))) = take (length h) ?h1"
    by simp
  with le p1 have "take (length h) (snd (run_rules rs ?h1 data)) = h"
    by (simp add: min_absorb1)
  then show ?case by (simp add: split_beta)
qed

lemma prefix_nth: "take (length h) h' = h \<Longrightarrow> i < length h \<Longrightarrow> h' ! i = h ! i"
  by (metis nth_take)

text \<open>
  C10. Let \<open>data\<close> refer to a frame of the store. After any run of the three rules on it,
  in any order and with repetitions, every frame that was in the store is what it was (the
  rules only add frames: the mask of \<open>isnull\<close>, the cleaned copies of \<open>replace\<close> and
  \<open>dropna\<close>), the frame of \<open>data\<close> among them, and each rule gives on it the verdict it
  gives on the store before the run.
\<close>

theorem table_rules_leave_table:
  assumes "data < length h"
  shows "take (length h) (snd (run_rules rs h data)) = h \<and>
         snd (run_rules rs h data) ! data = h ! data \<and>
         fst (run_rule r (snd (run_rules rs h data)) data) = fst (run_rule r h data)"
proof -
  let ?h' = "snd (run_rules rs h data)"
  have p: "take (length h) ?h' = h" by (rule run_rules_frame)
  then have same: "?h' ! data = h ! data" using assms by (rule prefix_nth)
  from p have "length h \<le> length ?h'" by (rule take_prefix_length) simp
  with assms have "data < length ?h'" by simp
  then have "fst (run_rule r ?h' data) = fst (run_rule r [?h' ! data] 0)" by (rule run_rule_value)
  also have "\<dots> = fst (run_rule r [h ! data] 0)" by (simp only: same)
  also have "\<dots> = fst (run_rule r h data)" using assms by (rule run_rule_value [symmetric])
  finally show ?thesis using p same by simp
qed

theorem table_rules_leave_table_witness:
  "(0::nat) < length [example_frame] \<and>
   take (length [example_frame])
     (snd (run_rules [Empty_Rows, Null_Values, Headers, Empty_Rows] [example_frame] 0))
     = [example_frame] \<and>
   snd (run_rules [Empty_Rows, Null_Values, Headers, Empty_Rows] [example_frame] 0) ! 0
     = [example_frame] ! 0 \<and>
   fst (run_rule Empty_Rows
     (snd (run_rules [Empty_Rows, Null_Values, Headers, Empty_Rows] [example_frame] 0)) 0)
     = str ''Uploaded file contains empty rows. '' @ [CROSS]"
proof -
  have d: "(0::nat) < length [example_frame]" by simp
  have v: "fst (run_rule Empty_Rows [example_frame] 0)
      = str ''Uploaded file contains empty rows. '' @ [CROSS]"
    by (simp add: check_empty_rows_def replace_blank_def dropna_all_def len_def str_def
        is_space_def example_frame_def)
  show ?thesis
    using table_rules_leave_table
      [OF d, of "[Empty_Rows, Null_Values, Headers, Empty_Rows]" Empty_Rows] d
    unfolding v by blast
qed

section \<open>Reading a .txt file\<close>

lemma read_txt_file_find:
  "fst (read_txt_file e f ds) =
     (case find (accepts e (content f)) ds of
        Some d \<Rightarrow> pd_read_csv e (Some d) (content f)
      | None \<Rightarrow> Inl (ValueError (str
          ''Failed to parse the .txt file with common delimiters (tab, comma, space).'')))
   \<and> content (snd (read_txt_file e f ds)) = content f"
proof (induction ds arbitrary: f)
  case Nil
  show ?case by simp
next
  case (Cons d ds)
  let ?f1 = "seek_end (seek f 0)"
  have c: "content ?f1 = content f" by (simp add: seek_end_def seek_def)
  have r: "read_csv e (Some d) (seek f 0) = (pd_read_csv e (Some d) (content f), ?f1)"
    by (simp add: read_csv_def seek_def)
  have ih: "fst (read_txt_file e ?f1 ds) =
     (case find (accepts e (content f)) ds of
        Some d \<Rightarrow> pd_read_csv e (Some d) (content f)
      | None \<Rightarrow> Inl (ValueError (str
          ''Failed to parse the .txt file with common delimiters (tab, comma, space).'')))
   \<and> content (snd (read_txt_file e ?f1 ds)) = content f"
    using Cons.IH [of ?f1] unfolding c .
  show ?case
  proof (cases "pd_read_csv e (Some d) (content f)")
    case (Inl ex)
    then have "\<not> accepts e (content f) d" by (simp add: accepts_def)
    then show ?thesis using Inl ih r by simp
  next
    case (Inr df)
    then have a: "accepts e (content f) d = (columns df = ALLOWED_HEADERS)"
      by (simp add: accepts_def)
    show ?thesis using Inr ih r c by (simp add: a)
  qed
qed

text \<open>
  C3. With the default delimiters, \<open>read_txt_file\<close> returns what pandas reads from all the
  bytes of the stream (whatever the position of the stream was: each attempt starts at 0)
  with the tab if the tab is accepted, else with the comma if the comma is accepted, else
  with the space if the space is accepted; when none is accepted it raises the
  \<open>ValueError\<close> whose text names tab, comma and space. The bytes of the stream are not
  changed.
\<close>

theorem read_txt_file_order:
  "fst (read_txt_file e f delimiters) =
     (if accepts e (content f) [9] then pd_read_csv e (Some [9]) (content f)
      else if accepts e (content f) [44] then pd_read_csv e (Some [44]) (content f)
      else if accepts e (content f) [32] then pd_read_csv e (Some [32]) (content f)
      else Inl (ValueError (str
        ''Failed to parse the .txt file with common delimiters (tab, comma, space).'')))
   \<and> content (snd (read_txt_file e f delimiters)) = content f"
  using read_txt_file_find [of e f delimiters] by (simp add: delimiters_def)

theorem read_txt_file_order_witness:
  "fst (read_txt_file (example_env\<lparr>pd_read_csv := ambiguous_read_csv\<rparr>)
      \<lparr>content = ''CUSTOMER,ADDRESS'', pos = 7\<rparr> delimiters)
   = Inr \<lparr>columns = ALLOWED_HEADERS, rows = [[Str (str ''comma'')]]\<rparr>"
  using read_txt_file_order [of "example_env\<lparr>pd_read_csv := ambiguous_read_csv\<rparr>"
      "\<lparr>content = ''CUSTOMER,ADDRESS'', pos = 7\<rparr>"]
  by (simp add: accepts_def example_env_def ambiguous_read_csv_def ALLOWED_HEADERS_def str_def)

section \<open>The pipeline when the database stores every row\<close>

lemma insert_ok:
  "db_failure e db (a, b, c) = None \<Longrightarrow>
   insert_validation_result e db a b c = (None, db @ [(a, b, c)])"
  by (simp add: insert_validation_result_def)

lemma insert_all_ok:
  "\<forall>d r. db_failure e d r = None \<Longrightarrow>
   insert_all e db a rs = (None, db @ map (\<lambda>r. (a, str ''Validation'', r)) rs)"
  by (induction rs arbitrary: db) (simp_all add: insert_ok)

lemma validate_table_ok:
  assumes "\<forall>d r. db_failure e d r = None"
  shows "validate_table e a db vs df =
     (let v3 = fst (validate_headers [df] 0);
          v4 = fst (check_null_values [df] 0);
          v5 = fst (check_empty_rows [df] 0);
          results = vs @ [v3, v4, v5];
          db5 = db @ [(a, str ''Headers'', v3), (a, str ''Null Values'', v4),
                      (a, str ''Empty Rows'', v5)]
      in if list_ex (\<lambda>result. CROSS \<in> set result) results
         then (Inr (Error_content (rejected_message (concat (map li
                 (filter (\<lambda>result. CROSS \<in> set result) results))))), db5)
         else (Inr (Message_content (accepted_message (concat (map li results)))),
               db5 @ map (\<lambda>r. (a, str ''Validation'', r)) results))"
proof -
  let ?h2 = "snd (check_null_values [df] 0)"
  have p: "take (length [df]) ?h2 = [df]"
    using run_rule_frame [of "[df]" Null_Values 0] by simp
  then have "length [df] \<le> length ?h2" by (rule take_prefix_length) simp
  then have l2: "0 < length ?h2" by (simp add: Suc_le_eq)
  from p have h2: "?h2 ! 0 = [df] ! 0" by (rule prefix_nth) simp
  have v5: "fst (check_empty_rows ?h2 0) = fst (check_empty_rows [df] 0)"
    using run_rule_value [of 0 ?h2 Empty_Rows] l2 h2 by simp
  have ins: "\<And>db a b c. insert_validation_result e db a b c = (None, db @ [(a, b, c)])"
    using assms by (simp add: insert_ok)
  show ?thesis
    unfolding validate_table_def
    by (simp add: ins insert_all_ok [OF assms] split_beta Let_def
        validate_headers_def v5)
qed

lemma csv_neq_txt: "str ''csv'' \<noteq> str ''txt''"
  by (simp add: str_def)

lemma read_txt_file_any_pos:
  assumes c: "content g = content f"
  shows "fst (read_txt_file e g ds) = fst (read_txt_file e f ds)"
  using read_txt_file_find [of e g ds] read_txt_file_find [of e f ds] unfolding c by simp

lemma process_files_try_parsed:
  assumes rec: "\<forall>d r. db_failure e d r = None"
    and ext: "str_lower e (drop 1 (snd (splitext (os_name e) (filename f)))) = file_type"
    and parse: "(file_type = str ''csv'' \<and> pd_read_csv e None (content (file_obj f)) = Inr df) \<or>
                (file_type = str ''txt'' \<and> fst (read_txt_file e (file_obj f) delimiters) = Inr df)"
  shows "process_files_try e file_type f db =
     validate_table e (filename f)
       (db @ [(filename f, str ''File Name'', validate_file_name (os_name e) (filename f)),
              (filename f, str ''File Size'', fst (validate_file_size f))])
       [validate_file_name (os_name e) (filename f), fst (validate_file_size f)] df"
proof -
  have ins: "\<And>db a b c. insert_validation_result e db a b c = (None, db @ [(a, b, c)])"
    using rec by (simp add: insert_ok)
  have rd: "fst (read_csv e None (file_obj (snd (validate_file_size f))))
      = pd_read_csv e None (content (file_obj f))"
    by (simp add: validate_file_size_def seek_end_def seek_def tell_def read_csv_def Let_def)
  have "content (file_obj (snd (validate_file_size f))) = content (file_obj f)"
    by (simp add: validate_file_size_def seek_end_def seek_def Let_def)
  then have rt: "fst (read_txt_file e (file_obj (snd (validate_file_size f))) delimiters)
      = fst (read_txt_file e (file_obj f) delimiters)"
    by (rule read_txt_file_any_pos)
  from parse show ?thesis
  proof
    assume a: "file_type = str ''csv'' \<and> pd_read_csv e None (content (file_obj f)) = Inr df"
    then show ?thesis
      unfolding process_files_try_def
      using ext by (simp add: ins split_beta Let_def rd)
  next
    assume a: "file_type = str ''txt'' \<and> fst (read_txt_file e (file_obj f) delimiters) = Inr df"
    then show ?thesis
      unfolding process_files_try_def
      using ext by (simp add: ins split_beta Let_def rt csv_neq_txt [symmetric])
  qed
qed


text \<open>The verdict of each rule is the failing one exactly when its subject breaks the rule.\<close>

lemma cross_file_name:
  "CROSS \<in> set (validate_file_name sys n) \<longleftrightarrow> \<not> re_match_name (fst (splitext sys n))"
  by (simp add: validate_file_name_def str_def CROSS_def CHECK_def Let_def)

lemma cross_file_size:
  "CROSS \<in> set (fst (validate_file_size u)) \<longleftrightarrow> 10240 < length (content (file_obj u))"
  by (auto simp add: validate_file_size_def str_def CROSS_def CHECK_def Let_def seek_end_def
      tell_def)

lemma cross_headers:
  "CROSS \<in> set (fst (validate_headers [df] 0)) \<longleftrightarrow> columns df \<noteq> ALLOWED_HEADERS"
  by (simp add: validate_headers_def str_def CROSS_def CHECK_def)

lemma cross_null_values:
  "CROSS \<in> set (fst (check_null_values [df] 0)) \<longleftrightarrow> (\<exists>row \<in> set (rows df). Null \<in> set row)"
  by (auto simp add: check_null_values_def isnull_def values_any_def str_def CROSS_def
      CHECK_def list_ex_iff)

lemma cross_empty_rows:
  "CROSS \<in> set (fst (check_empty_rows [df] 0)) \<longleftrightarrow>
     (\<exists>row \<in> set (rows df). list_all (\<lambda>c. blank_to_na c = Null) row)"
proof -
  have "length (filter (\<lambda>row. \<not> list_all (\<lambda>c. c = Null) row) (map (map blank_to_na) (rows df)))
          < length (rows df)
        \<longleftrightarrow> (\<exists>row \<in> set (rows df). list_all (\<lambda>c. blank_to_na c = Null) row)"
    (is "?l \<longleftrightarrow> ?r")
  proof
    assume ?l
    then have "filter (\<lambda>row. \<not> list_all (\<lambda>c. c = Null) row) (map (map blank_to_na) (rows df))
        \<noteq> map (map blank_to_na) (rows df)"
      by (metis length_map less_irrefl)
    then obtain x where "x \<in> set (map (map blank_to_na) (rows df))"
        and "list_all (\<lambda>c. c = Null) x"
      by (metis (mono_tags, lifting) filter_True)
    then show ?r by (fastforce simp: list_all_iff)
  next
    assume ?r
    then obtain row where "row \<in> set (rows df)" and "list_all (\<lambda>c. blank_to_na c = Null) row"
      by blast
    then have "map blank_to_na row \<in> set (map (map blank_to_na) (rows df))"
        and "\<not> \<not> list_all (\<lambda>c. c = Null) (map blank_to_na row)"
      by (auto simp: list_all_iff)
    then have "length (filter (\<lambda>row. \<not> list_all (\<lambda>c. c = Null) row)
        (map (map blank_to_na) (rows df))) < length (map (map blank_to_na) (rows df))"
      by (rule length_filter_less)
    then show ?l by simp
  qed
  then show ?thesis
    by (simp add: check_empty_rows_def replace_blank_def dropna_all_def len_def str_def
        CROSS_def CHECK_def)
qed


lemma process_files_parsed:
  assumes rec: "\<forall>d r. db_failure e d r = None"
    and ext: "str_lower e (drop 1 (snd (splitext (os_name e) (filename f)))) = file_type"
    and parse: "(file_type = str ''csv'' \<and> pd_read_csv e None (content (file_obj f)) = Inr df) \<or>
                (file_type = str ''txt'' \<and> fst (read_txt_file e (file_obj f) delimiters) = Inr df)"
  shows "process_files e file_type f db =
     (let results = [validate_file_name (os_name e) (filename f), fst (validate_file_size f),
            fst (validate_headers [df] 0), fst (check_null_values [df] 0),
            fst (check_empty_rows [df] 0)];
          recorded = db @ map (\<lambda>(rule, v). (filename f, rule, v))
            (zip [str ''File Name'', str ''File Size'', str ''Headers'', str ''Null Values'',
                  str ''Empty Rows''] results)
      in if list_ex (\<lambda>result. CROSS \<in> set result) results
         then (Error_content (rejected_message (concat (map li
                 (filter (\<lambda>result. CROSS \<in> set result) results)))), recorded)
         else (Message_content (accepted_message (concat (map li results))),
               recorded @ map (\<lambda>v. (filename f, str ''Validation'', v)) results))"
  unfolding process_files_def process_files_try_parsed [OF rec ext parse]
    validate_table_ok [OF rec]
  by (simp add: Let_def)

section \<open>The example environment\<close>

lemma read_good_csv: "pd_read_csv example_env None good_csv = Inr good_frame"
  by (simp add: example_env_def example_read_csv_def good_csv_def good_frame_def lines_of_def
      ALLOWED_HEADERS_def str_def field_cell_def)

lemma ascii_lower_idem: "ascii_lower (ascii_lower s) = ascii_lower s"
  by (induction s) (auto simp: ascii_lower_def)

lemma example_env_simps [simp]:
  "os_name example_env = Posix" "str_lower example_env = ascii_lower"
  "pd_read_csv example_env = example_read_csv" "db_failure example_env = (\<lambda>table row. None)"
  by (simp_all add: example_env_def)

lemma extension_of_examples:
  "snd (splitext Posix (str ''Report1.txt'')) = str ''.txt''"
  "snd (splitext Posix (str ''Report1.csv'')) = str ''.csv''"
  "snd (splitext Posix (str ''bad@name.csv'')) = str ''.csv''"
  "snd (splitext Posix (str ''Report1.pdf'')) = str ''.pdf''"
  "fst (splitext Posix (str ''Report1.csv'')) = str ''Report1''"
  "fst (splitext Posix (str ''Report1.txt'')) = str ''Report1''"
  "fst (splitext Posix (str ''Report1.pdf'')) = str ''Report1''"
  "fst (splitext Posix (str ''bad@name.csv'')) = str ''bad@name''"
  by (simp_all add: splitext_def str_def skip_leading_dots.simps)

section \<open>Extension Match\<close>

text \<open>
  C1. Let \<open>str.lower\<close> be idempotent, and let the extension of the file name and the
  declared type differ after both are put in lower case. If the database stores the row,
  \<open>process_files\<close> answers with the mismatch message under \<open>error\<close> and adds exactly one
  row, that message under \<open>File Type\<close>. Nothing else is done: the answer and the table
  are the same whatever the stream of the upload holds and whatever the parser would do.
\<close>

theorem extension_mismatch_rejects:
  assumes idem: "\<forall>s. str_lower e (str_lower e s) = str_lower e s"
    and differ: "str_lower e (drop 1 (snd (splitext (os_name e) (filename f))))
                   \<noteq> str_lower e file_type"
    and rec: "db_failure e db (filename f, str ''File Type'',
                str ''File type mismatch. Expected '' @ file_type @ str '' file. '' @ [CROSS]) = None"
  shows "process_files e file_type f db =
           (Error_content
              (str ''File type mismatch. Expected '' @ file_type @ str '' file. '' @ [CROSS]),
            db @ [(filename f, str ''File Type'',
              str ''File type mismatch. Expected '' @ file_type @ str '' file. '' @ [CROSS])]) \<and>
         process_files (e\<lparr>pd_read_csv := reader\<rparr>) file_type (f\<lparr>file_obj := stream\<rparr>) db =
           process_files e file_type f db"
proof -
  have ne: "str_lower e (drop 1 (snd (splitext (os_name e) (filename f)))) \<noteq> file_type"
    using idem differ by metis
  have a: "process_files e file_type f db =
           (Error_content
              (str ''File type mismatch. Expected '' @ file_type @ str '' file. '' @ [CROSS]),
            db @ [(filename f, str ''File Type'',
              str ''File type mismatch. Expected '' @ file_type @ str '' file. '' @ [CROSS])])"
    using ne rec
    by (simp add: process_files_def process_files_try_def insert_validation_result_def Let_def)
  have b: "process_files (e\<lparr>pd_read_csv := reader\<rparr>) file_type (f\<lparr>file_obj := stream\<rparr>) db =
           (Error_content
              (str ''File type mismatch. Expected '' @ file_type @ str '' file. '' @ [CROSS]),
            db @ [(filename f, str ''File Type'',
              str ''File type mismatch. Expected '' @ file_type @ str '' file. '' @ [CROSS])])"
    using ne rec
    by (simp add: process_files_def process_files_try_def insert_validation_result_def Let_def)
  show ?thesis using a b by simp
qed


theorem extension_mismatch_rejects_witness:
  "process_files example_env (str ''csv'') (upload ''Report1.txt'' good_csv) [] =
     (Error_content (str ''File type mismatch. Expected csv file. '' @ [CROSS]),
      [(str ''Report1.txt'', str ''File Type'',
        str ''File type mismatch. Expected csv file. '' @ [CROSS])])"
proof -
  have h1: "\<forall>s. str_lower example_env (str_lower example_env s) = str_lower example_env s"
    by (simp add: ascii_lower_idem)
  have h2: "str_lower example_env (drop 1 (snd (splitext (os_name example_env)
               (filename (upload ''Report1.txt'' good_csv)))))
            \<noteq> str_lower example_env (str ''csv'')"
    by (simp add: upload_def extension_of_examples) (simp add: str_def ascii_lower_def)
  have h3: "db_failure example_env [] (filename (upload ''Report1.txt'' good_csv),
      str ''File Type'', str ''File type mismatch. Expected '' @ str ''csv'' @ str '' file. ''
        @ [CROSS]) = None"
    by simp
  show ?thesis
    using extension_mismatch_rejects [OF h1 h2 h3] by (simp add: upload_def str_def)
qed

section \<open>Uploads that are parsed\<close>

lemma good_frame_verdicts:
  "fst (validate_headers [good_frame] 0) = str ''Headers matched. '' @ [CHECK]"
  "fst (check_null_values [good_frame] 0) =
     str ''Uploaded file does not contain null values. '' @ [CHECK]"
  "fst (check_empty_rows [good_frame] 0) =
     str ''Uploaded file does not contain empty rows. '' @ [CHECK]"
  by (simp_all add: validate_headers_def check_null_values_def isnull_def values_any_def
      check_empty_rows_def replace_blank_def dropna_all_def len_def good_frame_def
      str_def is_space_def)

lemma good_csv_size: "fst (validate_file_size (upload n good_csv)) = str ''File size is valid. '' @ [CHECK]"
  by (simp add: validate_file_size_def upload_def good_csv_def seek_end_def tell_def)

lemma li_text: "li = (\<lambda>result. str ''<li>'' @ result @ str ''</li>'')"
  by (rule HOL.ext) (simp add: li_def)

text \<open>
  C4. Let the database store every row, let the extension in lower case be the declared
  type, and let the file be read into the frame \<open>df\<close> (as \<open>csv\<close>, or as \<open>txt\<close> by
  \<open>read_txt_file\<close>). Then the five rows that \<open>process_files\<close> adds first are the verdicts
  of File Name, File Size, Headers, Null Values and Empty Rows, in this order, whichever of
  them fail. If one of the five fails, no other row is added and the answer is, under
  \<open>error\<close>, this text: the heading \<open>File Rejected:\<close> and a list whose items are the
  failing messages, each between \<open><li>\<close> and \<open></li>\<close>, in the order of the rules, and
  no passing message. Otherwise ten rows are added in all.
\<close>

theorem parsed_upload_runs_table_rules:
  assumes rec: "\<forall>d r. db_failure e d r = None"
    and ext: "str_lower e (drop 1 (snd (splitext (os_name e) (filename f)))) = file_type"
    and parse: "(file_type = str ''csv'' \<and> pd_read_csv e None (content (file_obj f)) = Inr df) \<or>
                (file_type = str ''txt'' \<and> fst (read_txt_file e (file_obj f) delimiters) = Inr df)"
  shows "take (length db + 5) (snd (process_files e file_type f db)) =
           db @ [(filename f, str ''File Name'', validate_file_name (os_name e) (filename f)),
                 (filename f, str ''File Size'', fst (validate_file_size f)),
                 (filename f, str ''Headers'', fst (validate_headers [df] 0)),
                 (filename f, str ''Null Values'', fst (check_null_values [df] 0)),
                 (filename f, str ''Empty Rows'', fst (check_empty_rows [df] 0))] \<and>
         (if list_ex (\<lambda>v. CROSS \<in> set v)
               [validate_file_name (os_name e) (filename f), fst (validate_file_size f),
                fst (validate_headers [df] 0), fst (check_null_values [df] 0),
                fst (check_empty_rows [df] 0)]
          then process_files e file_type f db =
            (Error_content
               ([10] @ replicate 12 32 @
                str ''<h3 style='' @ [34] @ str ''color: red;'' @ [34] @
                str ''>File Rejected:</h3>'' @
                [10] @ replicate 12 32 @ str ''<ul>'' @
                [10] @ replicate 16 32 @
                concat (map (\<lambda>v. str ''<li>'' @ v @ str ''</li>'')
                  (filter (\<lambda>v. CROSS \<in> set v)
                    [validate_file_name (os_name e) (filename f), fst (validate_file_size f),
                     fst (validate_headers [df] 0), fst (check_null_values [df] 0),
                     fst (check_empty_rows [df] 0)])) @
                [10] @ replicate 12 32 @ str ''</ul>'' @
                [10] @ replicate 12 32),
             db @ [(filename f, str ''File Name'', validate_file_name (os_name e) (filename f)),
                 (filename f, str ''File Size'', fst (validate_file_size f)),
                 (filename f, str ''Headers'', fst (validate_headers [df] 0)),
                 (filename f, str ''Null Values'', fst (check_null_values [df] 0)),
                 (filename f, str ''Empty Rows'', fst (check_empty_rows [df] 0))])
          else length (snd (process_files e file_type f db)) = length db + 10)"
  unfolding process_files_parsed [OF rec ext parse] rejected_message_def li_text
  by (simp add: Let_def)

theorem parsed_upload_runs_table_rules_witness:
  "process_files example_env (str ''csv'') (upload ''bad@name.csv'' good_csv) [] =
     (Error_content
        ([10] @ replicate 12 32 @
         str ''<h3 style='' @ [34] @ str ''color: red;'' @ [34] @ str ''>File Rejected:</h3>'' @
         [10] @ replicate 12 32 @ str ''<ul>'' @
         [10] @ replicate 16 32 @
         str ''<li>File name is invalid. '' @ [CROSS] @ str ''</li>'' @
         [10] @ replicate 12 32 @ str ''</ul>'' @
         [10] @ replicate 12 32),
      [(str ''bad@name.csv'', str ''File Name'', str ''File name is invalid. '' @ [CROSS]),
       (str ''bad@name.csv'', str ''File Size'', str ''File size is valid. '' @ [CHECK]),
       (str ''bad@name.csv'', str ''Headers'', str ''Headers matched. '' @ [CHECK]),
       (str ''bad@name.csv'', str ''Null Values'',
          str ''Uploaded file does not contain null values. '' @ [CHECK]),
       (str ''bad@name.csv'', str ''Empty Rows'',
          str ''Uploaded file does not contain empty rows. '' @ [CHECK])])"
proof -
  have h1: "\<forall>d r. db_failure example_env d r = None" by simp
  have h2: "str_lower example_env (drop 1 (snd (splitext (os_name example_env)
              (filename (upload ''bad@name.csv'' good_csv))))) = str ''csv''"
    by (simp add: upload_def extension_of_examples) (simp add: str_def ascii_lower_def)
  have h3: "(str ''csv'' = str ''csv'' \<and>
      pd_read_csv example_env None (content (file_obj (upload ''bad@name.csv'' good_csv)))
        = Inr good_frame) \<or>
     (str ''csv'' = str ''txt'' \<and>
      fst (read_txt_file example_env (file_obj (upload ''bad@name.csv'' good_csv)) delimiters)
        = Inr good_frame)"
    using read_good_csv by (simp add: upload_def)
  have n: "validate_file_name Posix (str ''bad@name.csv'') = str ''File name is invalid. '' @ [CROSS]"
    by (simp add: validate_file_name_def extension_of_examples)
      (simp add: re_match_name_def name_char_def str_def)
  have c: "CROSS \<notin> set (str ''File size is valid. '')"
     "CROSS \<notin> set (str ''Headers matched. '')"
     "CROSS \<notin> set (str ''Uploaded file does not contain null values. '')"
     "CROSS \<notin> set (str ''Uploaded file does not contain empty rows. '')"
     "CROSS \<noteq> CHECK"
    by (simp_all add: str_def CROSS_def CHECK_def)
  have f: "filename (upload ''bad@name.csv'' good_csv) = str ''bad@name.csv''"
    by (simp add: upload_def)
  have t: "str ''<li>'' @ str ''File name is invalid. '' = str ''<li>File name is invalid. ''"
    by (simp add: str_def)
  show ?thesis
    using parsed_upload_runs_table_rules [OF h1 h2 h3, of "[]"]
    by (simp add: n c f t good_frame_verdicts good_csv_size)
qed

text \<open>
  C2. Let the database store every row, let the extension in lower case be the declared
  type, \<open>csv\<close> or \<open>txt\<close>, and let the upload break no rule: the base name matches the
  pattern, the stream holds at most 10240 bytes, the file is read into a frame whose columns
  are the allowed headers, no cell is missing, and no row is made of missing cells and
  white space only. Then the answer is the acceptance text with the five passing messages
  under \<open>message\<close>, and exactly ten rows are added: the five verdicts under the names of
  their rules, then the same five under \<open>Validation\<close>.
\<close>

theorem valid_upload_accepted:
  assumes rec: "\<forall>d r. db_failure e d r = None"
    and ext: "str_lower e (drop 1 (snd (splitext (os_name e) (filename f)))) = file_type"
    and name: "re_match_name (fst (splitext (os_name e) (filename f)))"
    and size: "length (content (file_obj f)) \<le> 10240"
    and parse: "(file_type = str ''csv'' \<and> pd_read_csv e None (content (file_obj f)) = Inr df) \<or>
                (file_type = str ''txt'' \<and> fst (read_txt_file e (file_obj f) delimiters) = Inr df)"
    and headers: "columns df = ALLOWED_HEADERS"
    and nonull: "\<forall>row \<in> set (rows df). Null \<notin> set row"
    and noblank: "\<forall>row \<in> set (rows df). \<not> list_all (\<lambda>c. blank_to_na c = Null) row"
  shows "process_files e file_type f db =
     (Message_content (accepted_message (concat (map li
        [str ''File name is valid. '' @ [CHECK],
         str ''File size is valid. '' @ [CHECK],
         str ''Headers matched. '' @ [CHECK],
         str ''Uploaded file does not contain null values. '' @ [CHECK],
         str ''Uploaded file does not contain empty rows. '' @ [CHECK]]))),
      db @
      [(filename f, str ''File Name'', str ''File name is valid. '' @ [CHECK]),
       (filename f, str ''File Size'', str ''File size is valid. '' @ [CHECK]),
       (filename f, str ''Headers'', str ''Headers matched. '' @ [CHECK]),
       (filename f, str ''Null Values'',
          str ''Uploaded file does not contain null values. '' @ [CHECK]),
       (filename f, str ''Empty Rows'',
          str ''Uploaded file does not contain empty rows. '' @ [CHECK]),
       (filename f, str ''Validation'', str ''File name is valid. '' @ [CHECK]),
       (filename f, str ''Validation'', str ''File size is valid. '' @ [CHECK]),
       (filename f, str ''Validation'', str ''Headers matched. '' @ [CHECK]),
       (filename f, str ''Validation'',
          str ''Uploaded file does not contain null values. '' @ [CHECK]),
       (filename f, str ''Validation'',
          str ''Uploaded file does not contain empty rows. '' @ [CHECK])])"
proof -
  have v1: "validate_file_name (os_name e) (filename f) = str ''File name is valid. '' @ [CHECK]"
    using name by (simp add: validate_file_name_def)
  have v2: "fst (validate_file_size f) = str ''File size is valid. '' @ [CHECK]"
    using size by (simp add: validate_file_size_def seek_end_def tell_def Let_def)
  have v3: "fst (validate_headers [df] 0) = str ''Headers matched. '' @ [CHECK]"
    using headers by (simp add: validate_headers_def)
  have "\<not> CROSS \<in> set (fst (check_null_values [df] 0))"
    unfolding cross_null_values using nonull by blast
  then have v4: "fst (check_null_values [df] 0) =
      str ''Uploaded file does not contain null values. '' @ [CHECK]"
    by (simp add: check_null_values_def split_beta split: if_splits)
  have "\<not> CROSS \<in> set (fst (check_empty_rows [df] 0))"
    unfolding cross_empty_rows using noblank by blast
  then have v5: "fst (check_empty_rows [df] 0) =
      str ''Uploaded file does not contain empty rows. '' @ [CHECK]"
    by (simp add: check_empty_rows_def split_beta split: if_splits)
  have c: "CROSS \<notin> set (str ''File name is valid. '')"
     "CROSS \<notin> set (str ''File size is valid. '')"
     "CROSS \<notin> set (str ''Headers matched. '')"
     "CROSS \<notin> set (str ''Uploaded file does not contain null values. '')"
     "CROSS \<notin> set (str ''Uploaded file does not contain empty rows. '')"
     "CROSS \<noteq> CHECK"
    by (simp_all add: str_def CROSS_def CHECK_def)
  show ?thesis
    unfolding process_files_parsed [OF rec ext parse] v1 v2 v3 v4 v5
    by (simp add: c)
qed

theorem valid_upload_accepted_witness:
  "length (snd (process_files example_env (str ''csv'') (upload ''Report1.csv'' good_csv) []))
     = 10 \<and>
   fst (process_files example_env (str ''csv'') (upload ''Report1.csv'' good_csv) []) =
     Message_content (accepted_message (concat (map li
        [str ''File name is valid. '' @ [CHECK],
         str ''File size is valid. '' @ [CHECK],
         str ''Headers matched. '' @ [CHECK],
         str ''Uploaded file does not contain null values. '' @ [CHECK],
         str ''Uploaded file does not contain empty rows. '' @ [CHECK]])))"
proof -
  have h1: "\<forall>d r. db_failure example_env d r = None" by simp
  have h2: "str_lower example_env (drop 1 (snd (splitext (os_name example_env)
              (filename (upload ''Report1.csv'' good_csv))))) = str ''csv''"
    by (simp add: upload_def extension_of_examples) (simp add: str_def ascii_lower_def)
  have h3: "re_match_name (fst (splitext (os_name example_env)
              (filename (upload ''Report1.csv'' good_csv))))"
    by (simp add: upload_def extension_of_examples) (simp add: re_match_name_def name_char_def str_def)
  have h4: "length (content (file_obj (upload ''Report1.csv'' good_csv))) \<le> 10240"
    by (simp add: upload_def good_csv_def)
  have h5: "(str ''csv'' = str ''csv'' \<and>
      pd_read_csv example_env None (content (file_obj (upload ''Report1.csv'' good_csv)))
        = Inr good_frame) \<or>
     (str ''csv'' = str ''txt'' \<and>
      fst (read_txt_file example_env (file_obj (upload ''Report1.csv'' good_csv)) delimiters)
        = Inr good_frame)"
    using read_good_csv by (simp add: upload_def)
  have h6: "columns good_frame = ALLOWED_HEADERS" by (simp add: good_frame_def)
  have h7: "\<forall>row \<in> set (rows good_frame). Null \<notin> set row" by (simp add: good_frame_def)
  have h8: "\<forall>row \<in> set (rows good_frame). \<not> list_all (\<lambda>c. blank_to_na c = Null) row"
    by (simp add: good_frame_def str_def is_space_def)
  show ?thesis
    using valid_upload_accepted [OF h1 h2 h3 h4 h5 h6 h7 h8, of "[]"] by simp
qed


section \<open>A .txt file that no delimiter reads\<close>

lemma process_files_parse_error:
  assumes rec: "\<forall>d r. db_failure e d r = None"
    and ext: "str_lower e (drop 1 (snd (splitext (os_name e) (filename f)))) = str ''txt''"
    and fail: "fst (read_txt_file e (file_obj f) delimiters) = Inl (ValueError m)"
  shows "process_files e (str ''txt'') f db =
     (Error_content (m @ str '' '' @ [CROSS]),
      db @ [(filename f, str ''File Name'', validate_file_name (os_name e) (filename f)),
            (filename f, str ''File Size'', fst (validate_file_size f))])"
proof -
  have ins: "\<And>db a b c. insert_validation_result e db a b c = (None, db @ [(a, b, c)])"
    using rec by (simp add: insert_ok)
  have "content (file_obj (snd (validate_file_size f))) = content (file_obj f)"
    by (simp add: validate_file_size_def seek_end_def seek_def Let_def)
  then have rt: "fst (read_txt_file e (file_obj (snd (validate_file_size f))) delimiters)
      = fst (read_txt_file e (file_obj f) delimiters)"
    by (rule read_txt_file_any_pos)
  show ?thesis
    unfolding process_files_def process_files_try_def
    using ext fail by (simp add: ins split_beta Let_def rt csv_neq_txt [symmetric])
qed

text \<open>
  C6. Let the database store every row, let the declared type be \<open>txt\<close> and the extension
  in lower case too, and let none of the three delimiters be accepted for the bytes of the
  file. Then the answer is, under \<open>error\<close>, the text of the \<open>ValueError\<close> of
  \<open>read_txt_file\<close> followed by the cross mark; it is neither a rejection text, whatever the
  listed items, nor the mismatch message. The rows added are the File Name and File Size
  verdicts and no other: nothing is recorded for the failure to parse or for a rule on the
  table.
\<close>

theorem txt_parse_failure_is_error:
  assumes rec: "\<forall>d r. db_failure e d r = None"
    and ext: "str_lower e (drop 1 (snd (splitext (os_name e) (filename f)))) = str ''txt''"
    and nomatch: "\<forall>d \<in> set delimiters. \<not> accepts e (content (file_obj f)) d"
  shows "process_files e (str ''txt'') f db =
     (Error_content (str
        ''Failed to parse the .txt file with common delimiters (tab, comma, space).''
        @ str '' '' @ [CROSS]),
      db @ [(filename f, str ''File Name'', validate_file_name (os_name e) (filename f)),
            (filename f, str ''File Size'', fst (validate_file_size f))]) \<and>
     fst (process_files e (str ''txt'') f db) \<noteq> Error_content (rejected_message items) \<and>
     fst (process_files e (str ''txt'') f db) \<noteq>
       Error_content (str ''File type mismatch. Expected '' @ str ''txt'' @ str '' file. ''
         @ [CROSS])"
proof -
  have "find (accepts e (content (file_obj f))) delimiters = None"
    using nomatch by (simp add: find_None_iff)
  then have fail: "fst (read_txt_file e (file_obj f) delimiters) = Inl (ValueError (str
        ''Failed to parse the .txt file with common delimiters (tab, comma, space).''))"
    using read_txt_file_find [of e "file_obj f" delimiters] by simp
  have a: "process_files e (str ''txt'') f db =
     (Error_content (str
        ''Failed to parse the .txt file with common delimiters (tab, comma, space).''
        @ str '' '' @ [CROSS]),
      db @ [(filename f, str ''File Name'', validate_file_name (os_name e) (filename f)),
            (filename f, str ''File Size'', fst (validate_file_size f))])"
    by (rule process_files_parse_error [OF rec ext fail])
  have b: "str ''Failed to parse the .txt file with common delimiters (tab, comma, space).''
        @ str '' '' @ [CROSS] \<noteq> rejected_message items"
    by (simp add: rejected_message_def str_def)
  have c: "str ''Failed to parse the .txt file with common delimiters (tab, comma, space).''
        @ str '' '' @ [CROSS] \<noteq>
       str ''File type mismatch. Expected '' @ str ''txt'' @ str '' file. '' @ [CROSS]"
    by (simp add: str_def)
  show ?thesis unfolding a using b c by simp
qed

theorem txt_parse_failure_is_error_witness:
  "process_files example_env (str ''txt'') (upload ''Report1.txt'' ''a b c'') [] =
     (Error_content (str
        ''Failed to parse the .txt file with common delimiters (tab, comma, space). ''
        @ [CROSS]),
      [(str ''Report1.txt'', str ''File Name'', str ''File name is valid. '' @ [CHECK]),
       (str ''Report1.txt'', str ''File Size'', str ''File size is valid. '' @ [CHECK])])"
proof -
  have h1: "\<forall>d r. db_failure example_env d r = None" by simp
  have h2: "str_lower example_env (drop 1 (snd (splitext (os_name example_env)
              (filename (upload ''Report1.txt'' ''a b c''))))) = str ''txt''"
    by (simp add: upload_def extension_of_examples) (simp add: str_def ascii_lower_def)
  have h3: "\<forall>d \<in> set delimiters.
      \<not> accepts example_env (content (file_obj (upload ''Report1.txt'' ''a b c''))) d"
    by (simp add: delimiters_def accepts_def upload_def example_read_csv_def lines_of_def
        ALLOWED_HEADERS_def str_def)
  have n: "validate_file_name Posix (str ''Report1.txt'') = str ''File name is valid. '' @ [CHECK]"
    by (simp add: validate_file_name_def extension_of_examples)
      (simp add: re_match_name_def name_char_def str_def)
  have z: "fst (validate_file_size (upload ''Report1.txt'' ''a b c''))
      = str ''File size is valid. '' @ [CHECK]"
    by (simp add: validate_file_size_def upload_def seek_end_def tell_def)
  have f: "filename (upload ''Report1.txt'' ''a b c'') = str ''Report1.txt''"
    by (simp add: upload_def)
  show ?thesis
    using txt_parse_failure_is_error [OF h1 h2 h3, of "[]"]
    by (simp add: n z f) (simp add: str_def)
qed

section \<open>A declared type that is neither csv nor txt\<close>

text \<open>
  When the extension in lower case is the declared type and the type is neither \<open>csv\<close>
  nor \<open>txt\<close>, neither branch assigns \<open>data\<close>: reading it raises \<open>UnboundLocalError\<close>,
  which the last handler reports, after File Name and File Size were recorded.
\<close>

lemma process_files_unsupported_type:
  assumes rec: "\<forall>d r. db_failure e d r = None"
    and ext: "str_lower e (drop 1 (snd (splitext (os_name e) (filename f)))) = file_type"
    and other: "file_type \<noteq> str ''csv''" "file_type \<noteq> str ''txt''"
  shows "process_files e file_type f db =
     (Error_content (str ''An unexpected error occurred: '' @
        exn_str (UnboundLocalError (str ''data'')) @ str '' '' @ [CROSS]),
      db @ [(filename f, str ''File Name'', validate_file_name (os_name e) (filename f)),
            (filename f, str ''File Size'', fst (validate_file_size f))])"
proof -
  have ins: "\<And>db a b c. insert_validation_result e db a b c = (None, db @ [(a, b, c)])"
    using rec by (simp add: insert_ok)
  show ?thesis
    unfolding process_files_def process_files_try_def
    using ext other by (simp add: ins split_beta Let_def del: exn_str.simps)
qed

text \<open>
  C5 says that a declared type outside \<open>csv\<close> and \<open>txt\<close> is answered with the mismatch
  message, also when the file has that extension. For the declared type \<open>pdf\<close> and the
  file \<open>Report1.pdf\<close> the program answers with the text of the last handler instead, and
  records a File Name and a File Size verdict.
\<close>

theorem unsupported_type_same_extension:
  "process_files example_env (str ''pdf'') (upload ''Report1.pdf'' good_csv) [] =
     (Error_content (str ''An unexpected error occurred: '' @
        exn_str (UnboundLocalError (str ''data'')) @ str '' '' @ [CROSS]),
      [(str ''Report1.pdf'', str ''File Name'', str ''File name is valid. '' @ [CHECK]),
       (str ''Report1.pdf'', str ''File Size'', str ''File size is valid. '' @ [CHECK])]) \<and>
   fst (process_files example_env (str ''pdf'') (upload ''Report1.pdf'' good_csv) []) \<noteq>
     Error_content (str ''File type mismatch. Expected '' @ str ''pdf'' @ str '' file. ''
       @ [CROSS])"
proof -
  have h1: "\<forall>d r. db_failure example_env d r = None" by simp
  have h2: "str_lower example_env (drop 1 (snd (splitext (os_name example_env)
              (filename (upload ''Report1.pdf'' good_csv))))) = str ''pdf''"
    by (simp add: upload_def extension_of_examples) (simp add: str_def ascii_lower_def)
  have h3: "str ''pdf'' \<noteq> str ''csv''" "str ''pdf'' \<noteq> str ''txt''"
    by (simp_all add: str_def)
  have n: "validate_file_name Posix (str ''Report1.pdf'') = str ''File name is valid. '' @ [CHECK]"
    by (simp add: validate_file_name_def extension_of_examples)
      (simp add: re_match_name_def name_char_def str_def)
  have f: "filename (upload ''Report1.pdf'' good_csv) = str ''Report1.pdf''"
    by (simp add: upload_def)
  have a: "process_files example_env (str ''pdf'') (upload ''Report1.pdf'' good_csv) [] =
     (Error_content (str ''An unexpected error occurred: '' @
        exn_str (UnboundLocalError (str ''data'')) @ str '' '' @ [CROSS]),
      [(str ''Report1.pdf'', str ''File Name'', str ''File name is valid. '' @ [CHECK]),
       (str ''Report1.pdf'', str ''File Size'', str ''File size is valid. '' @ [CHECK])])"
    using process_files_unsupported_type [OF h1 h2 h3, of "[]"]
    by (simp add: n f good_csv_size del: exn_str.simps)
  show ?thesis unfolding a by (simp add: str_def)
qed


section \<open>File Name\<close>

text \<open>
  The pattern accepts a string exactly when it is a non-empty run of letters, digits and
  spaces, or such a run followed by one newline.
\<close>

lemma not_name_char_newline: "\<not> name_char 10"
  by (simp add: name_char_def)

lemma re_match_name_iff:
  "re_match_name s \<longleftrightarrow>
     (\<exists>run. run \<noteq> [] \<and> list_all name_char run \<and> (s = run \<or> s = run @ [10]))"
proof
  assume m: "re_match_name s"
  let ?run = "takeWhile name_char s"
  have "s = ?run @ dropWhile name_char s" by simp
  moreover have "list_all name_char ?run"
    by (simp add: list_all_iff) (meson set_takeWhileD)
  ultimately show "\<exists>run. run \<noteq> [] \<and> list_all name_char run \<and> (s = run \<or> s = run @ [10])"
    using m unfolding re_match_name_def Let_def
    by (metis append_Nil2)
next
  assume "\<exists>run. run \<noteq> [] \<and> list_all name_char run \<and> (s = run \<or> s = run @ [10])"
  then obtain run where r: "run \<noteq> []" "list_all name_char run" "s = run \<or> s = run @ [10]"
    by blast
  from r(2) have all: "\<And>x. x \<in> set run \<Longrightarrow> name_char x" by (simp add: list_all_iff)
  then have tw: "takeWhile name_char run = run" and dw: "dropWhile name_char run = []"
    by simp_all
  from r(3) show "re_match_name s"
  proof
    assume e: "s = run"
    show ?thesis unfolding re_match_name_def Let_def e tw dw using r(1) by simp
  next
    assume e: "s = run @ [10]"
    have "takeWhile name_char (run @ [10]) = run" "dropWhile name_char (run @ [10]) = [10]"
      using all not_name_char_newline by simp_all
    then show ?thesis unfolding re_match_name_def Let_def e using r(1) by simp
  qed
qed

text \<open>
  C8 says that a base name with any character other than a letter, a digit or a space
  fails. The base name of \<open>abc\n.csv\<close> (\<open>\n\<close> the newline, code point 10) ends with a
  newline, which is none of these, and File Name passes, on either platform.
\<close>

theorem file_name_with_final_newline:
  "validate_file_name sys (str ''abc'' @ [10] @ str ''.csv'') = str ''File name is valid. '' @ [CHECK] \<and>
   fst (splitext sys (str ''abc'' @ [10] @ str ''.csv'')) = str ''abc'' @ [10] \<and>
   \<not> name_char 10"
  by (cases sys)
    (simp_all add: validate_file_name_def splitext_def skip_leading_dots.simps re_match_name_def
      name_char_def str_def)


end
